theory Spec2Isabelle
  imports Main "HOL-Library.Word"
begin

section \<open>Exceptions and C scalar types\<close>

text \<open>
  The library signals failure by raising an exception (\<^verbatim>\<open>THROW(SQLException, ...)\<close>) and
  guards its pointer arguments with \<^verbatim>\<open>assert\<close>. Both are values here: a function that can
  raise returns \<open>exception_t + 'a\<close>, with \<open>Inl\<close> the exception raised. The string is the
  text the source passes to \<^verbatim>\<open>THROW\<close>, or the asserted expression.
\<close>

datatype exception_t = SQLException string | AssertException string

text \<open>
  C scalars keep their width: \<^verbatim>\<open>int\<close> is a 32-bit word, \<^verbatim>\<open>long long\<close> and \<^verbatim>\<open>time_t\<close>
  are 64-bit words, a \<^verbatim>\<open>double\<close> is carried as its 64-bit pattern (this layer never
  computes with it). A \<^verbatim>\<open>const char *\<close> is a \<open>string option\<close>, \<open>None\<close> the NULL pointer;
  a \<^verbatim>\<open>const void *\<close> buffer is a byte string, again optional.
\<close>

type_synonym c_int = "32 word"
type_synonym c_llong = "64 word"
type_synonym c_double = "64 word"
type_synonym time_t = "64 word"

section \<open>The world outside a statement\<close>

text \<open>
  Everything a statement does not own itself is in the world: the state of the database
  backend, of type \<open>'b\<close>, which only delegate operations read and change, and the
  sequence of result sets released so far, oldest first.
\<close>

record ('r, 'b) world =
  backend :: 'b
  released :: "'r list"

text \<open>A delegate operation runs on the backend; it returns a value or raises.\<close>

type_synonym ('a, 'b) call = "'b \<Rightarrow> (exception_t + 'a) \<times> 'b"

section \<open>PreparedStatement.c\<close>

subsection \<open>Definitions\<close>

text \<open>
  \<^verbatim>\<open>Pop_T\<close>, the operations table of a statement delegate. Its declaration
  (PreparedStatementDelegate.h) is not among the sources; the fields are the ones
  PreparedStatement.c calls through \<^verbatim>\<open>P->op\<close>, each with the arguments it is passed
  there. \<open>'d\<close> is the delegate handle \<^verbatim>\<open>PreparedStatementDelegate_T\<close>, \<open>'r\<close> the
  result-set handle \<^verbatim>\<open>ResultSet_T\<close>. The \<^verbatim>\<open>free\<close> operation is a release and does not
  raise.
\<close>

record ('d, 'r, 'b) Pop_S =
  free :: "'d \<Rightarrow> 'b \<Rightarrow> 'b"
  setString :: "'d \<Rightarrow> c_int \<Rightarrow> string option \<Rightarrow> (unit, 'b) call"
  setInt8 :: "'d \<Rightarrow> c_int \<Rightarrow> 8 word \<Rightarrow> (unit, 'b) call"
  setUInt8 :: "'d \<Rightarrow> c_int \<Rightarrow> 8 word \<Rightarrow> (unit, 'b) call"
  setInt16 :: "'d \<Rightarrow> c_int \<Rightarrow> 16 word \<Rightarrow> (unit, 'b) call"
  setUInt16 :: "'d \<Rightarrow> c_int \<Rightarrow> 16 word \<Rightarrow> (unit, 'b) call"
  setInt32 :: "'d \<Rightarrow> c_int \<Rightarrow> 32 word \<Rightarrow> (unit, 'b) call"
  setUInt32 :: "'d \<Rightarrow> c_int \<Rightarrow> 32 word \<Rightarrow> (unit, 'b) call"
  setInt64 :: "'d \<Rightarrow> c_int \<Rightarrow> 64 word \<Rightarrow> (unit, 'b) call"
  setUInt64 :: "'d \<Rightarrow> c_int \<Rightarrow> 64 word \<Rightarrow> (unit, 'b) call"
  setDouble :: "'d \<Rightarrow> c_int \<Rightarrow> c_double \<Rightarrow> (unit, 'b) call"
  setBlob :: "'d \<Rightarrow> c_int \<Rightarrow> string option \<Rightarrow> c_int \<Rightarrow> (unit, 'b) call"
  setTimestamp :: "'d \<Rightarrow> c_int \<Rightarrow> time_t \<Rightarrow> (unit, 'b) call"
  execute :: "'d \<Rightarrow> (unit, 'b) call"
  executeQuery :: "'d \<Rightarrow> ('r option, 'b) call"
  rowsChanged :: "'d \<Rightarrow> (c_llong, 'b) call"
  parameterCount :: "'d \<Rightarrow> (c_int, 'b) call"

text \<open>\<^verbatim>\<open>struct PreparedStatement_S\<close>; \<open>resultSet = None\<close> is the NULL pointer.\<close>

record ('d, 'r, 'b) PreparedStatement_S =
  op :: "('d, 'r, 'b) Pop_S"
  resultSet :: "'r option"
  D :: 'd

text \<open>
  \<^verbatim>\<open>T\<close>, a pointer to a statement, possibly NULL; and what a method leaves behind: the
  value it returns or the exception it raises, the statement and the world.
\<close>

type_synonym ('d, 'r, 'b) T = "('d, 'r, 'b) PreparedStatement_S option"

type_synonym ('a, 'd, 'r, 'b) outcome =
  "(exception_t + 'a) \<times> ('d, 'r, 'b) T \<times> ('r, 'b) world"

subsection \<open>Private methods\<close>

text \<open>
  Modelled from the spec: \<^verbatim>\<open>ResultSet_free(T *R)\<close> is declared in ResultSet.h and defined
  in ResultSet.c, which is missing. It "destroys a ResultSet and releases allocated
  resources" through a reference to the caller's pointer: the result set's own delegate
  is released on the backend (\<open>rfree\<close>, a parameter), the release is recorded, and the
  caller's pointer is reset to NULL.
\<close>

definition ResultSet_free ::
  "('r \<Rightarrow> 'b \<Rightarrow> 'b) \<Rightarrow> 'r \<Rightarrow> ('r, 'b) world \<Rightarrow> 'r option \<times> ('r, 'b) world" where
  "ResultSet_free rfree R w =
     (None, w\<lparr>backend := rfree R (backend w), released := released w @ [R]\<rparr>)"

text \<open>\<^verbatim>\<open>_clearResultSet\<close> (an Isabelle name cannot start with an underscore).\<close>

definition clearResultSet ::
  "('r \<Rightarrow> 'b \<Rightarrow> 'b) \<Rightarrow> ('d, 'r, 'b) PreparedStatement_S \<Rightarrow> ('r, 'b) world \<Rightarrow>
     ('d, 'r, 'b) PreparedStatement_S \<times> ('r, 'b) world" where
  "clearResultSet rfree P w =
     (case resultSet P of
        None \<Rightarrow> (P, w)
      | Some R \<Rightarrow> (case ResultSet_free rfree R w of (R', w') \<Rightarrow> (P\<lparr>resultSet := R'\<rparr>, w')))"

subsection \<open>Protected methods\<close>

text \<open>
  \<^verbatim>\<open>PreparedStatement_new\<close>. \<^verbatim>\<open>NEW(P)\<close> allocates the structure zeroed, so the new
  statement holds no result set.
\<close>

definition PreparedStatement_new ::
  "'d option \<Rightarrow> ('d, 'r, 'b) Pop_S option \<Rightarrow> exception_t + ('d, 'r, 'b) PreparedStatement_S" where
  "PreparedStatement_new D0 op0 =
     (case D0 of
        None \<Rightarrow> Inl (AssertException ''D'')
      | Some d \<Rightarrow>
          (case op0 of
             None \<Rightarrow> Inl (AssertException ''op'')
           | Some ops \<Rightarrow> Inr \<lparr>op = ops, resultSet = None, D = d\<rparr>))"

text \<open>
  \<^verbatim>\<open>PreparedStatement_free(T *P)\<close>. The argument is a pointer to the caller's pointer:
  \<open>None\<close> is \<^verbatim>\<open>P == NULL\<close>, \<open>Some None\<close> is \<^verbatim>\<open>*P == NULL\<close>. \<^verbatim>\<open>FREE(*P)\<close> releases the
  structure and resets the caller's pointer; the statement returned is the value of
  that pointer afterwards.
\<close>

definition PreparedStatement_free ::
  "('r \<Rightarrow> 'b \<Rightarrow> 'b) \<Rightarrow> ('d, 'r, 'b) T option \<Rightarrow> ('r, 'b) world \<Rightarrow> (unit, 'd, 'r, 'b) outcome" where
  "PreparedStatement_free rfree P w =
     (case P of
        None \<Rightarrow> (Inl (AssertException ''P && *P''), None, w)
      | Some None \<Rightarrow> (Inl (AssertException ''P && *P''), None, w)
      | Some (Some S) \<Rightarrow>
          (case clearResultSet rfree S w of
             (S1, w1) \<Rightarrow> (Inr (), None, w1\<lparr>backend := free (op S1) (D S1) (backend w1)\<rparr>)))"

subsection \<open>Parameters\<close>

definition PreparedStatement_setString ::
  "('d, 'r, 'b) T \<Rightarrow> c_int \<Rightarrow> string option \<Rightarrow> ('r, 'b) world \<Rightarrow> (unit, 'd, 'r, 'b) outcome" where
  "PreparedStatement_setString P parameterIndex x w =
     (case P of
        None \<Rightarrow> (Inl (AssertException ''P''), P, w)
      | Some S \<Rightarrow>
          (case setString (op S) (D S) parameterIndex x (backend w) of
             (res, b) \<Rightarrow> (res, P, w\<lparr>backend := b\<rparr>)))"

definition PreparedStatement_setInt8 ::
  "('d, 'r, 'b) T \<Rightarrow> c_int \<Rightarrow> 8 word \<Rightarrow> ('r, 'b) world \<Rightarrow> (unit, 'd, 'r, 'b) outcome" where
  "PreparedStatement_setInt8 P parameterIndex x w =
     (case P of
        None \<Rightarrow> (Inl (AssertException ''P''), P, w)
      | Some S \<Rightarrow>
          (case setInt8 (op S) (D S) parameterIndex x (backend w) of
             (res, b) \<Rightarrow> (res, P, w\<lparr>backend := b\<rparr>)))"

definition PreparedStatement_setUInt8 ::
  "('d, 'r, 'b) T \<Rightarrow> c_int \<Rightarrow> 8 word \<Rightarrow> ('r, 'b) world \<Rightarrow> (unit, 'd, 'r, 'b) outcome" where
  "PreparedStatement_setUInt8 P parameterIndex x w =
     (case P of
        None \<Rightarrow> (Inl (AssertException ''P''), P, w)
      | Some S \<Rightarrow>
          (case setUInt8 (op S) (D S) parameterIndex x (backend w) of
             (res, b) \<Rightarrow> (res, P, w\<lparr>backend := b\<rparr>)))"

definition PreparedStatement_setInt16 ::
  "('d, 'r, 'b) T \<Rightarrow> c_int \<Rightarrow> 16 word \<Rightarrow> ('r, 'b) world \<Rightarrow> (unit, 'd, 'r, 'b) outcome" where
  "PreparedStatement_setInt16 P parameterIndex x w =
     (case P of
        None \<Rightarrow> (Inl (AssertException ''P''), P, w)
      | Some S \<Rightarrow>
          (case setInt16 (op S) (D S) parameterIndex x (backend w) of
             (res, b) \<Rightarrow> (res, P, w\<lparr>backend := b\<rparr>)))"

definition PreparedStatement_setUInt16 ::
  "('d, 'r, 'b) T \<Rightarrow> c_int \<Rightarrow> 16 word \<Rightarrow> ('r, 'b) world \<Rightarrow> (unit, 'd, 'r, 'b) outcome" where
  "PreparedStatement_setUInt16 P parameterIndex x w =
     (case P of
        None \<Rightarrow> (Inl (AssertException ''P''), P, w)
      | Some S \<Rightarrow>
          (case setUInt16 (op S) (D S) parameterIndex x (backend w) of
             (res, b) \<Rightarrow> (res, P, w\<lparr>backend := b\<rparr>)))"

definition PreparedStatement_setInt32 ::
  "('d, 'r, 'b) T \<Rightarrow> c_int \<Rightarrow> 32 word \<Rightarrow> ('r, 'b) world \<Rightarrow> (unit, 'd, 'r, 'b) outcome" where
  "PreparedStatement_setInt32 P parameterIndex x w =
     (case P of
        None \<Rightarrow> (Inl (AssertException ''P''), P, w)
      | Some S \<Rightarrow>
          (case setInt32 (op S) (D S) parameterIndex x (backend w) of
             (res, b) \<Rightarrow> (res, P, w\<lparr>backend := b\<rparr>)))"

definition PreparedStatement_setUInt32 ::
  "('d, 'r, 'b) T \<Rightarrow> c_int \<Rightarrow> 32 word \<Rightarrow> ('r, 'b) world \<Rightarrow> (unit, 'd, 'r, 'b) outcome" where
  "PreparedStatement_setUInt32 P parameterIndex x w =
     (case P of
        None \<Rightarrow> (Inl (AssertException ''P''), P, w)
      | Some S \<Rightarrow>
          (case setUInt32 (op S) (D S) parameterIndex x (backend w) of
             (res, b) \<Rightarrow> (res, P, w\<lparr>backend := b\<rparr>)))"

definition PreparedStatement_setInt64 ::
  "('d, 'r, 'b) T \<Rightarrow> c_int \<Rightarrow> 64 word \<Rightarrow> ('r, 'b) world \<Rightarrow> (unit, 'd, 'r, 'b) outcome" where
  "PreparedStatement_setInt64 P parameterIndex x w =
     (case P of
        None \<Rightarrow> (Inl (AssertException ''P''), P, w)
      | Some S \<Rightarrow>
          (case setInt64 (op S) (D S) parameterIndex x (backend w) of
             (res, b) \<Rightarrow> (res, P, w\<lparr>backend := b\<rparr>)))"

definition PreparedStatement_setUInt64 ::
  "('d, 'r, 'b) T \<Rightarrow> c_int \<Rightarrow> 64 word \<Rightarrow> ('r, 'b) world \<Rightarrow> (unit, 'd, 'r, 'b) outcome" where
  "PreparedStatement_setUInt64 P parameterIndex x w =
     (case P of
        None \<Rightarrow> (Inl (AssertException ''P''), P, w)
      | Some S \<Rightarrow>
          (case setUInt64 (op S) (D S) parameterIndex x (backend w) of
             (res, b) \<Rightarrow> (res, P, w\<lparr>backend := b\<rparr>)))"

definition PreparedStatement_setDouble ::
  "('d, 'r, 'b) T \<Rightarrow> c_int \<Rightarrow> c_double \<Rightarrow> ('r, 'b) world \<Rightarrow> (unit, 'd, 'r, 'b) outcome" where
  "PreparedStatement_setDouble P parameterIndex x w =
     (case P of
        None \<Rightarrow> (Inl (AssertException ''P''), P, w)
      | Some S \<Rightarrow>
          (case setDouble (op S) (D S) parameterIndex x (backend w) of
             (res, b) \<Rightarrow> (res, P, w\<lparr>backend := b\<rparr>)))"

definition PreparedStatement_setBlob ::
  "('d, 'r, 'b) T \<Rightarrow> c_int \<Rightarrow> string option \<Rightarrow> c_int \<Rightarrow> ('r, 'b) world \<Rightarrow> (unit, 'd, 'r, 'b) outcome" where
  "PreparedStatement_setBlob P parameterIndex x size' w =
     (case P of
        None \<Rightarrow> (Inl (AssertException ''P''), P, w)
      | Some S \<Rightarrow>
          (case setBlob (op S) (D S) parameterIndex x size' (backend w) of
             (res, b) \<Rightarrow> (res, P, w\<lparr>backend := b\<rparr>)))"

definition PreparedStatement_setTimestamp ::
  "('d, 'r, 'b) T \<Rightarrow> c_int \<Rightarrow> time_t \<Rightarrow> ('r, 'b) world \<Rightarrow> (unit, 'd, 'r, 'b) outcome" where
  "PreparedStatement_setTimestamp P parameterIndex x w =
     (case P of
        None \<Rightarrow> (Inl (AssertException ''P''), P, w)
      | Some S \<Rightarrow>
          (case setTimestamp (op S) (D S) parameterIndex x (backend w) of
             (res, b) \<Rightarrow> (res, P, w\<lparr>backend := b\<rparr>)))"

subsection \<open>Public methods\<close>

definition PreparedStatement_execute ::
  "('r \<Rightarrow> 'b \<Rightarrow> 'b) \<Rightarrow> ('d, 'r, 'b) T \<Rightarrow> ('r, 'b) world \<Rightarrow> (unit, 'd, 'r, 'b) outcome" where
  "PreparedStatement_execute rfree P w =
     (case P of
        None \<Rightarrow> (Inl (AssertException ''P''), P, w)
      | Some S \<Rightarrow>
          (case clearResultSet rfree S w of
             (S1, w1) \<Rightarrow>
               (case execute (op S1) (D S1) (backend w1) of
                  (res, b) \<Rightarrow> (res, Some S1, w1\<lparr>backend := b\<rparr>))))"

text \<open>
  \<^verbatim>\<open>PreparedStatement_executeQuery\<close>. When the delegate raises, the assignment to
  \<^verbatim>\<open>P->resultSet\<close> is not reached; when it returns, its result is stored before the test.
\<close>

definition PreparedStatement_executeQuery ::
  "('r \<Rightarrow> 'b \<Rightarrow> 'b) \<Rightarrow> ('d, 'r, 'b) T \<Rightarrow> ('r, 'b) world \<Rightarrow> ('r, 'd, 'r, 'b) outcome" where
  "PreparedStatement_executeQuery rfree P w =
     (case P of
        None \<Rightarrow> (Inl (AssertException ''P''), P, w)
      | Some S \<Rightarrow>
          (case clearResultSet rfree S w of
             (S1, w1) \<Rightarrow>
               (case executeQuery (op S1) (D S1) (backend w1) of
                  (Inl e, b) \<Rightarrow> (Inl e, Some S1, w1\<lparr>backend := b\<rparr>)
                | (Inr R, b) \<Rightarrow>
                    (case R of
                       None \<Rightarrow>
                         (Inl (SQLException ''PreparedStatement_executeQuery''),
                          Some (S1\<lparr>resultSet := R\<rparr>), w1\<lparr>backend := b\<rparr>)
                     | Some rs \<Rightarrow>
                         (Inr rs, Some (S1\<lparr>resultSet := R\<rparr>), w1\<lparr>backend := b\<rparr>)))))"

definition PreparedStatement_rowsChanged ::
  "('d, 'r, 'b) T \<Rightarrow> ('r, 'b) world \<Rightarrow> (c_llong, 'd, 'r, 'b) outcome" where
  "PreparedStatement_rowsChanged P w =
     (case P of
        None \<Rightarrow> (Inl (AssertException ''P''), P, w)
      | Some S \<Rightarrow>
          (case rowsChanged (op S) (D S) (backend w) of
             (res, b) \<Rightarrow> (res, P, w\<lparr>backend := b\<rparr>)))"

subsection \<open>Properties\<close>

definition PreparedStatement_getParameterCount ::
  "('d, 'r, 'b) T \<Rightarrow> ('r, 'b) world \<Rightarrow> (c_int, 'd, 'r, 'b) outcome" where
  "PreparedStatement_getParameterCount P w =
     (case P of
        None \<Rightarrow> (Inl (AssertException ''P''), P, w)
      | Some S \<Rightarrow>
          (case parameterCount (op S) (D S) (backend w) of
             (res, b) \<Rightarrow> (res, P, w\<lparr>backend := b\<rparr>)))"

subsection \<open>Sequences of calls\<close>

text \<open>
  A client drives a statement through any sequence of the calls above, catching what
  they raise and going on. A call is a value, and \<open>run\<close> performs a sequence of them
  on a statement pointer, collecting what each call returned or raised.
\<close>

datatype call_t =
    Call_setString c_int "string option"
  | Call_setInt8 c_int "8 word"
  | Call_setUInt8 c_int "8 word"
  | Call_setInt16 c_int "16 word"
  | Call_setUInt16 c_int "16 word"
  | Call_setInt32 c_int "32 word"
  | Call_setUInt32 c_int "32 word"
  | Call_setInt64 c_int "64 word"
  | Call_setUInt64 c_int "64 word"
  | Call_setDouble c_int c_double
  | Call_setBlob c_int "string option" c_int
  | Call_setTimestamp c_int time_t
  | Call_execute
  | Call_executeQuery
  | Call_rowsChanged
  | Call_getParameterCount
  | Call_free

datatype 'r value_t = V_void | V_ResultSet 'r | V_llong c_llong | V_int c_int

definition returning ::
  "('a \<Rightarrow> 'r value_t) \<Rightarrow> ('a, 'd, 'r, 'b) outcome \<Rightarrow> ('r value_t, 'd, 'r, 'b) outcome" where
  "returning f out = (case out of (res, P, w) \<Rightarrow> (map_sum id f res, P, w))"

fun invoke ::
  "('r \<Rightarrow> 'b \<Rightarrow> 'b) \<Rightarrow> call_t \<Rightarrow> ('d, 'r, 'b) T \<Rightarrow> ('r, 'b) world \<Rightarrow>
     ('r value_t, 'd, 'r, 'b) outcome" where
  "invoke rfree (Call_setString i x) P w =
     returning (\<lambda>_. V_void) (PreparedStatement_setString P i x w)"
| "invoke rfree (Call_setInt8 i x) P w =
     returning (\<lambda>_. V_void) (PreparedStatement_setInt8 P i x w)"
| "invoke rfree (Call_setUInt8 i x) P w =
     returning (\<lambda>_. V_void) (PreparedStatement_setUInt8 P i x w)"
| "invoke rfree (Call_setInt16 i x) P w =
     returning (\<lambda>_. V_void) (PreparedStatement_setInt16 P i x w)"
| "invoke rfree (Call_setUInt16 i x) P w =
     returning (\<lambda>_. V_void) (PreparedStatement_setUInt16 P i x w)"
| "invoke rfree (Call_setInt32 i x) P w =
     returning (\<lambda>_. V_void) (PreparedStatement_setInt32 P i x w)"
| "invoke rfree (Call_setUInt32 i x) P w =
     returning (\<lambda>_. V_void) (PreparedStatement_setUInt32 P i x w)"
| "invoke rfree (Call_setInt64 i x) P w =
     returning (\<lambda>_. V_void) (PreparedStatement_setInt64 P i x w)"
| "invoke rfree (Call_setUInt64 i x) P w =
     returning (\<lambda>_. V_void) (PreparedStatement_setUInt64 P i x w)"
| "invoke rfree (Call_setDouble i x) P w =
     returning (\<lambda>_. V_void) (PreparedStatement_setDouble P i x w)"
| "invoke rfree (Call_setBlob i x n) P w =
     returning (\<lambda>_. V_void) (PreparedStatement_setBlob P i x n w)"
| "invoke rfree (Call_setTimestamp i x) P w =
     returning (\<lambda>_. V_void) (PreparedStatement_setTimestamp P i x w)"
| "invoke rfree Call_execute P w =
     returning (\<lambda>_. V_void) (PreparedStatement_execute rfree P w)"
| "invoke rfree Call_executeQuery P w =
     returning V_ResultSet (PreparedStatement_executeQuery rfree P w)"
| "invoke rfree Call_rowsChanged P w =
     returning V_llong (PreparedStatement_rowsChanged P w)"
| "invoke rfree Call_getParameterCount P w =
     returning V_int (PreparedStatement_getParameterCount P w)"
| "invoke rfree Call_free P w =
     returning (\<lambda>_. V_void) (PreparedStatement_free rfree (Some P) w)"

fun run ::
  "('r \<Rightarrow> 'b \<Rightarrow> 'b) \<Rightarrow> call_t list \<Rightarrow> ('d, 'r, 'b) T \<Rightarrow> ('r, 'b) world \<Rightarrow>
     (exception_t + 'r value_t) list \<times> ('d, 'r, 'b) T \<times> ('r, 'b) world" where
  "run rfree [] P w = ([], P, w)"
| "run rfree (c # cs) P w =
     (case invoke rfree c P w of
        (res, P1, w1) \<Rightarrow>
          (case run rfree cs P1 w1 of (ress, P2, w2) \<Rightarrow> (res # ress, P2, w2)))"

text \<open>The result sets a statement pointer holds: none or one.\<close>

definition held :: "('d, 'r, 'b) T \<Rightarrow> 'r list" where
  "held P =
     (case P of
        None \<Rightarrow> []
      | Some S \<Rightarrow> (case resultSet S of None \<Rightarrow> [] | Some R \<Rightarrow> [R]))"

text \<open>The result sets a sequence of calls handed to the client, oldest first.\<close>

fun produced :: "(exception_t + 'r value_t) list \<Rightarrow> 'r list" where
  "produced [] = []"
| "produced (Inr (V_ResultSet R) # ress) = R # produced ress"
| "produced (_ # ress) = produced ress"

section \<open>Time.h\<close>

text \<open>
  The error taxonomy of the specification. In the C interface each of them is raised as
  an \<^verbatim>\<open>SQLException\<close>.
\<close>

datatype sql_error =
  OutOfRange | ColumnNotFound | ConversionError | DatabaseAccessError | ExecutionError

text \<open>
  Modelled from the spec: SQLDateTime.h, which declares the date and time structures, is
  missing. ResultSet.h describes them: a date has "fields for year, month and day (of
  month)", a time has "fields for hour, minute, seconds and microseconds", a datetime
  has "fields for date and time".
\<close>

record sqldate_t =
  year :: int
  month :: int
  day :: int

record sqltime_t =
  hour :: int
  minute :: int
  second :: int
  usec :: int

record sqldatetime_t =
  date :: sqldate_t
  time :: sqltime_t

definition sqldate_zero :: sqldate_t where
  "sqldate_zero = \<lparr>year = 0, month = 0, day = 0\<rparr>"

definition sqltime_zero :: sqltime_t where
  "sqltime_zero = \<lparr>hour = 0, minute = 0, second = 0, usec = 0\<rparr>"

definition sqldatetime_zero :: sqldatetime_t where
  "sqldatetime_zero = \<lparr>date = sqldate_zero, time = sqltime_zero\<rparr>"

text \<open>
  Modelled from the spec: Time.c, which defines the four conversions Time.h declares, is
  missing. The parser of the text itself is a parameter \<open>parse\<close>, \<open>None\<close> where the
  text cannot be parsed as the requested temporal shape, which raises a conversion
  error; and "a NULL/absent input raises a conversion error for toX entry points". The
  comment on the declaration of \<^verbatim>\<open>Time_toTimestamp\<close> in Time.h says instead that it
  returns 0 if its argument is NULL; nothing proved below rests on the NULL branch of a
  conversion, since the getters of a result set never pass NULL to one.
\<close>

definition Time_toTimestamp ::
  "(string \<Rightarrow> time_t option) \<Rightarrow> string option \<Rightarrow> sql_error + time_t" where
  "Time_toTimestamp parse t =
     (case t of
        None \<Rightarrow> Inl ConversionError
      | Some s \<Rightarrow> (case parse s of None \<Rightarrow> Inl ConversionError | Some v \<Rightarrow> Inr v))"

definition Time_toDate ::
  "(string \<Rightarrow> sqldate_t option) \<Rightarrow> string option \<Rightarrow> sql_error + sqldate_t" where
  "Time_toDate parse t =
     (case t of
        None \<Rightarrow> Inl ConversionError
      | Some s \<Rightarrow> (case parse s of None \<Rightarrow> Inl ConversionError | Some v \<Rightarrow> Inr v))"

definition Time_toTime ::
  "(string \<Rightarrow> sqltime_t option) \<Rightarrow> string option \<Rightarrow> sql_error + sqltime_t" where
  "Time_toTime parse t =
     (case t of
        None \<Rightarrow> Inl ConversionError
      | Some s \<Rightarrow> (case parse s of None \<Rightarrow> Inl ConversionError | Some v \<Rightarrow> Inr v))"

definition Time_toDateTime ::
  "(string \<Rightarrow> sqldatetime_t option) \<Rightarrow> string option \<Rightarrow> sql_error + sqldatetime_t" where
  "Time_toDateTime parse t =
     (case t of
        None \<Rightarrow> Inl ConversionError
      | Some s \<Rightarrow> (case parse s of None \<Rightarrow> Inl ConversionError | Some v \<Rightarrow> Inr v))"

section \<open>ResultSet.h\<close>

subsection \<open>The result set\<close>

text \<open>
  Modelled from the spec: ResultSet.c, which defines every function ResultSet.h
  declares, is missing, and so are the result delegates behind it. The model is the
  result set the specification and the comments of ResultSet.h describe: a fixed list of
  column names, numbered from 1; the raw values of the current row, each a byte string
  or SQL NULL (\<open>None\<close>); and a forward-only cursor over what the backend will deliver on
  the next advances, a row or a database access failure.
\<close>

datatype fetch = Row "string option list" | Failure

record ResultSet_S =
  columnNames :: "string list"
  currentRow :: "string option list"
  pending :: "fetch list"

text \<open>
  The conversions of a raw value to the numeric and temporal types, \<open>None\<close> where the
  text is not a literal of the type or does not fit it. They are parameters: the spec
  fixes when a getter converts, not the syntax accepted.
\<close>

record conv =
  parseInt :: "string \<Rightarrow> c_int option"
  parseLLong :: "string \<Rightarrow> c_llong option"
  parseDouble :: "string \<Rightarrow> c_double option"
  parseTimestamp :: "string \<Rightarrow> time_t option"
  parseDate :: "string \<Rightarrow> sqldate_t option"
  parseTime :: "string \<Rightarrow> sqltime_t option"
  parseDateTime :: "string \<Rightarrow> sqldatetime_t option"

subsection \<open>Properties\<close>

definition ResultSet_getColumnCount :: "ResultSet_S \<Rightarrow> int" where
  "ResultSet_getColumnCount R = int (length (columnNames R))"

text \<open>
  Every indexed function checks the index against \<open>[1, columnCount]\<close> before anything
  else; a valid index gives the position in the row, counted from 0.
\<close>

definition checkIndex :: "ResultSet_S \<Rightarrow> int \<Rightarrow> sql_error + nat" where
  "checkIndex R columnIndex =
     (if columnIndex < 1 \<or> ResultSet_getColumnCount R < columnIndex then Inl OutOfRange
      else Inr (nat (columnIndex - 1)))"

text \<open>The raw value at a position of the current row; a row too short reads as NULL.\<close>

definition cell :: "ResultSet_S \<Rightarrow> nat \<Rightarrow> string option" where
  "cell R k = (if k < length (currentRow R) then currentRow R ! k else None)"

definition ResultSet_getColumnName :: "ResultSet_S \<Rightarrow> int \<Rightarrow> string option" where
  "ResultSet_getColumnName R columnIndex =
     (case checkIndex R columnIndex of
        Inl _ \<Rightarrow> None
      | Inr k \<Rightarrow> Some (columnNames R ! k))"

definition ResultSet_getColumnSize :: "ResultSet_S \<Rightarrow> int \<Rightarrow> sql_error + int" where
  "ResultSet_getColumnSize R columnIndex =
     (case checkIndex R columnIndex of
        Inl e \<Rightarrow> Inl e
      | Inr k \<Rightarrow> (case cell R k of None \<Rightarrow> Inr 0 | Some s \<Rightarrow> Inr (int (length s))))"

subsection \<open>The cursor\<close>

definition ResultSet_next :: "ResultSet_S \<Rightarrow> (sql_error + bool) \<times> ResultSet_S" where
  "ResultSet_next R =
     (case pending R of
        [] \<Rightarrow> (Inr False, R)
      | Failure # _ \<Rightarrow> (Inl DatabaseAccessError, R)
      | Row r # rest \<Rightarrow> (Inr True, R\<lparr>currentRow := r, pending := rest\<rparr>))"

text \<open>Calling \<open>next\<close> over and over, collecting what each call returned or raised.\<close>

fun next_times :: "nat \<Rightarrow> ResultSet_S \<Rightarrow> (sql_error + bool) list \<times> ResultSet_S" where
  "next_times 0 R = ([], R)"
| "next_times (Suc n) R =
     (case ResultSet_next R of
        (res, R1) \<Rightarrow> (case next_times n R1 of (ress, R2) \<Rightarrow> (res # ress, R2)))"

subsection \<open>Getters by index\<close>

definition ResultSet_isnull :: "ResultSet_S \<Rightarrow> int \<Rightarrow> sql_error + bool" where
  "ResultSet_isnull R columnIndex =
     (case checkIndex R columnIndex of
        Inl e \<Rightarrow> Inl e
      | Inr k \<Rightarrow> Inr (cell R k = None))"

definition ResultSet_getString :: "ResultSet_S \<Rightarrow> int \<Rightarrow> sql_error + string option" where
  "ResultSet_getString R columnIndex =
     (case checkIndex R columnIndex of
        Inl e \<Rightarrow> Inl e
      | Inr k \<Rightarrow> Inr (cell R k))"

text \<open>
  A typed getter reads the raw value and converts it: the zero of the type on SQL NULL,
  a conversion error when the text cannot be converted.
\<close>

definition convert :: "(string \<Rightarrow> 'a option) \<Rightarrow> 'a \<Rightarrow> string option \<Rightarrow> sql_error + 'a" where
  "convert parse zero v =
     (case v of
        None \<Rightarrow> Inr zero
      | Some s \<Rightarrow> (case parse s of None \<Rightarrow> Inl ConversionError | Some x \<Rightarrow> Inr x))"

definition ResultSet_getInt :: "conv \<Rightarrow> ResultSet_S \<Rightarrow> int \<Rightarrow> sql_error + c_int" where
  "ResultSet_getInt c R columnIndex =
     (case ResultSet_getString R columnIndex of
        Inl e \<Rightarrow> Inl e
      | Inr v \<Rightarrow> convert (parseInt c) 0 v)"

definition ResultSet_getLLong :: "conv \<Rightarrow> ResultSet_S \<Rightarrow> int \<Rightarrow> sql_error + c_llong" where
  "ResultSet_getLLong c R columnIndex =
     (case ResultSet_getString R columnIndex of
        Inl e \<Rightarrow> Inl e
      | Inr v \<Rightarrow> convert (parseLLong c) 0 v)"

definition ResultSet_getDouble :: "conv \<Rightarrow> ResultSet_S \<Rightarrow> int \<Rightarrow> sql_error + c_double" where
  "ResultSet_getDouble c R columnIndex =
     (case ResultSet_getString R columnIndex of
        Inl e \<Rightarrow> Inl e
      | Inr v \<Rightarrow> convert (parseDouble c) 0 v)"

text \<open>A blob is returned with its size: \<open>(NULL, 0)\<close> on SQL NULL.\<close>

definition ResultSet_getBlob :: "ResultSet_S \<Rightarrow> int \<Rightarrow> sql_error + (string option \<times> int)" where
  "ResultSet_getBlob R columnIndex =
     (case checkIndex R columnIndex of
        Inl e \<Rightarrow> Inl e
      | Inr k \<Rightarrow>
          (case cell R k of
             None \<Rightarrow> Inr (None, 0)
           | Some b \<Rightarrow> Inr (Some b, int (length b))))"

text \<open>
  The temporal getters hand the raw value to the temporal parser; on SQL NULL they
  return the zero value without calling it.
\<close>

definition ResultSet_getTimestamp :: "conv \<Rightarrow> ResultSet_S \<Rightarrow> int \<Rightarrow> sql_error + time_t" where
  "ResultSet_getTimestamp c R columnIndex =
     (case ResultSet_getString R columnIndex of
        Inl e \<Rightarrow> Inl e
      | Inr None \<Rightarrow> Inr 0
      | Inr (Some s) \<Rightarrow> Time_toTimestamp (parseTimestamp c) (Some s))"

definition ResultSet_getDate :: "conv \<Rightarrow> ResultSet_S \<Rightarrow> int \<Rightarrow> sql_error + sqldate_t" where
  "ResultSet_getDate c R columnIndex =
     (case ResultSet_getString R columnIndex of
        Inl e \<Rightarrow> Inl e
      | Inr None \<Rightarrow> Inr sqldate_zero
      | Inr (Some s) \<Rightarrow> Time_toDate (parseDate c) (Some s))"

definition ResultSet_getTime :: "conv \<Rightarrow> ResultSet_S \<Rightarrow> int \<Rightarrow> sql_error + sqltime_t" where
  "ResultSet_getTime c R columnIndex =
     (case ResultSet_getString R columnIndex of
        Inl e \<Rightarrow> Inl e
      | Inr None \<Rightarrow> Inr sqltime_zero
      | Inr (Some s) \<Rightarrow> Time_toTime (parseTime c) (Some s))"

definition ResultSet_getDateTime :: "conv \<Rightarrow> ResultSet_S \<Rightarrow> int \<Rightarrow> sql_error + sqldatetime_t" where
  "ResultSet_getDateTime c R columnIndex =
     (case ResultSet_getString R columnIndex of
        Inl e \<Rightarrow> Inl e
      | Inr None \<Rightarrow> Inr sqldatetime_zero
      | Inr (Some s) \<Rightarrow> Time_toDateTime (parseDateTime c) (Some s))"

subsection \<open>Getters by name\<close>

text \<open>
  The index of a column name: the columns are tried from the first to the last, the
  names compared byte for byte, and the first that matches is the answer.
\<close>

fun findColumn :: "string list \<Rightarrow> string \<Rightarrow> int \<Rightarrow> int option" where
  "findColumn [] columnName i = None"
| "findColumn (n # ns) columnName i =
     (if n = columnName then Some i else findColumn ns columnName (i + 1))"

definition getIndex :: "ResultSet_S \<Rightarrow> string \<Rightarrow> sql_error + int" where
  "getIndex R columnName =
     (case findColumn (columnNames R) columnName 1 of
        None \<Rightarrow> Inl ColumnNotFound
      | Some i \<Rightarrow> Inr i)"

definition byName :: "ResultSet_S \<Rightarrow> string \<Rightarrow> (int \<Rightarrow> sql_error + 'a) \<Rightarrow> sql_error + 'a" where
  "byName R columnName getter =
     (case getIndex R columnName of Inl e \<Rightarrow> Inl e | Inr i \<Rightarrow> getter i)"

definition ResultSet_getStringByName :: "ResultSet_S \<Rightarrow> string \<Rightarrow> sql_error + string option" where
  "ResultSet_getStringByName R columnName = byName R columnName (ResultSet_getString R)"

definition ResultSet_getIntByName :: "conv \<Rightarrow> ResultSet_S \<Rightarrow> string \<Rightarrow> sql_error + c_int" where
  "ResultSet_getIntByName c R columnName = byName R columnName (ResultSet_getInt c R)"

definition ResultSet_getLLongByName :: "conv \<Rightarrow> ResultSet_S \<Rightarrow> string \<Rightarrow> sql_error + c_llong" where
  "ResultSet_getLLongByName c R columnName = byName R columnName (ResultSet_getLLong c R)"

definition ResultSet_getDoubleByName :: "conv \<Rightarrow> ResultSet_S \<Rightarrow> string \<Rightarrow> sql_error + c_double" where
  "ResultSet_getDoubleByName c R columnName = byName R columnName (ResultSet_getDouble c R)"

definition ResultSet_getBlobByName ::
  "ResultSet_S \<Rightarrow> string \<Rightarrow> sql_error + (string option \<times> int)" where
  "ResultSet_getBlobByName R columnName = byName R columnName (ResultSet_getBlob R)"

definition ResultSet_getTimestampByName :: "conv \<Rightarrow> ResultSet_S \<Rightarrow> string \<Rightarrow> sql_error + time_t" where
  "ResultSet_getTimestampByName c R columnName = byName R columnName (ResultSet_getTimestamp c R)"

definition ResultSet_getDateByName :: "conv \<Rightarrow> ResultSet_S \<Rightarrow> string \<Rightarrow> sql_error + sqldate_t" where
  "ResultSet_getDateByName c R columnName = byName R columnName (ResultSet_getDate c R)"

definition ResultSet_getTimeByName :: "conv \<Rightarrow> ResultSet_S \<Rightarrow> string \<Rightarrow> sql_error + sqltime_t" where
  "ResultSet_getTimeByName c R columnName = byName R columnName (ResultSet_getTime c R)"

definition ResultSet_getDateTimeByName ::
  "conv \<Rightarrow> ResultSet_S \<Rightarrow> string \<Rightarrow> sql_error + sqldatetime_t" where
  "ResultSet_getDateTimeByName c R columnName = byName R columnName (ResultSet_getDateTime c R)"

section \<open>A scripted backend\<close>

text \<open>
  A small delegate to run the definitions on: its backend keeps a journal of the
  operations it was asked to perform and of the result sets released, and the script of
  what the next queries will return. It takes two parameters, numbered 1 and 2, and
  raises on any other index.
\<close>

datatype event = Delegate call_t | ResultSet_released

record scripted =
  journal :: "event list"
  script :: "ResultSet_S option list"

definition journalled :: "event \<Rightarrow> scripted \<Rightarrow> scripted" where
  "journalled e b = b\<lparr>journal := journal b @ [e]\<rparr>"

definition bind_parameter :: "call_t \<Rightarrow> c_int \<Rightarrow> (unit, scripted) call" where
  "bind_parameter c i b =
     (if i = 1 \<or> i = 2 then (Inr (), journalled (Delegate c) b)
      else (Inl (SQLException ''parameter index out of range''), b))"

definition next_result :: "(ResultSet_S option, scripted) call" where
  "next_result b =
     (case script b of
        [] \<Rightarrow> (Inl (SQLException ''no result scripted''), journalled (Delegate Call_executeQuery) b)
      | R # Rs \<Rightarrow> (Inr R, journalled (Delegate Call_executeQuery) (b\<lparr>script := Rs\<rparr>)))"

definition scripted_op :: "(nat, ResultSet_S, scripted) Pop_S" where
  "scripted_op =
     \<lparr>free = (\<lambda>d. journalled (Delegate Call_free)),
      setString = (\<lambda>d i x. bind_parameter (Call_setString i x) i),
      setInt8 = (\<lambda>d i x. bind_parameter (Call_setInt8 i x) i),
      setUInt8 = (\<lambda>d i x. bind_parameter (Call_setUInt8 i x) i),
      setInt16 = (\<lambda>d i x. bind_parameter (Call_setInt16 i x) i),
      setUInt16 = (\<lambda>d i x. bind_parameter (Call_setUInt16 i x) i),
      setInt32 = (\<lambda>d i x. bind_parameter (Call_setInt32 i x) i),
      setUInt32 = (\<lambda>d i x. bind_parameter (Call_setUInt32 i x) i),
      setInt64 = (\<lambda>d i x. bind_parameter (Call_setInt64 i x) i),
      setUInt64 = (\<lambda>d i x. bind_parameter (Call_setUInt64 i x) i),
      setDouble = (\<lambda>d i x. bind_parameter (Call_setDouble i x) i),
      setBlob = (\<lambda>d i x n. bind_parameter (Call_setBlob i x n) i),
      setTimestamp = (\<lambda>d i x. bind_parameter (Call_setTimestamp i x) i),
      execute = (\<lambda>d b. (Inr (), journalled (Delegate Call_execute) b)),
      executeQuery = (\<lambda>d. next_result),
      rowsChanged = (\<lambda>d b. (Inr 0, journalled (Delegate Call_rowsChanged) b)),
      parameterCount = (\<lambda>d b. (Inr 2, journalled (Delegate Call_getParameterCount) b))\<rparr>"

definition scripted_rfree :: "ResultSet_S \<Rightarrow> scripted \<Rightarrow> scripted" where
  "scripted_rfree R = journalled ResultSet_released"

definition scripted_world :: "ResultSet_S option list \<Rightarrow> (ResultSet_S, scripted) world" where
  "scripted_world Rs = \<lparr>backend = \<lparr>journal = [], script = Rs\<rparr>, released = []\<rparr>"

definition scripted_statement ::
  "ResultSet_S option \<Rightarrow> (nat, ResultSet_S, scripted) PreparedStatement_S" where
  "scripted_statement R = \<lparr>op = scripted_op, resultSet = R, D = 7\<rparr>"

text \<open>
  Result sets to run on: one with no rows; the one of the specification's scenario, a
  single row \<open>(id = 7, label = ok)\<close>; one whose columns are named \<open>a\<close>, \<open>b\<close>, \<open>a\<close>, on
  its only row, the second column SQL NULL; and one whose backend fails after a row.
\<close>

definition rs_empty :: ResultSet_S where
  "rs_empty = \<lparr>columnNames = [''n''], currentRow = [], pending = []\<rparr>"

definition rs_scenario :: ResultSet_S where
  "rs_scenario =
     \<lparr>columnNames = [''id'', ''label''], currentRow = [],
      pending = [Row [Some ''7'', Some ''ok'']]\<rparr>"

definition rs_aba :: ResultSet_S where
  "rs_aba =
     \<lparr>columnNames = [''a'', ''b'', ''a''],
      currentRow = [Some ''first'', None, Some ''third''], pending = []\<rparr>"

definition rs_failing :: ResultSet_S where
  "rs_failing =
     \<lparr>columnNames = [''n''], currentRow = [], pending = [Row [Some ''1''], Failure]\<rparr>"

text \<open>Conversions to run on: none of them accepts any text.\<close>

definition no_conv :: conv where
  "no_conv =
     \<lparr>parseInt = (\<lambda>s. None), parseLLong = (\<lambda>s. None), parseDouble = (\<lambda>s. None),
      parseTimestamp = (\<lambda>s. None), parseDate = (\<lambda>s. None), parseTime = (\<lambda>s. None),
      parseDateTime = (\<lambda>s. None)\<rparr>"

section \<open>Properties of PreparedStatement.c\<close>

subsection \<open>Auxiliary facts\<close>

lemmas setter_defs =
  PreparedStatement_setString_def PreparedStatement_setInt8_def PreparedStatement_setUInt8_def
  PreparedStatement_setInt16_def PreparedStatement_setUInt16_def
  PreparedStatement_setInt32_def PreparedStatement_setUInt32_def
  PreparedStatement_setInt64_def PreparedStatement_setUInt64_def
  PreparedStatement_setDouble_def PreparedStatement_setBlob_def
  PreparedStatement_setTimestamp_def

lemmas scripted_defs =
  scripted_op_def scripted_rfree_def scripted_world_def scripted_statement_def
  journalled_def bind_parameter_def next_result_def

lemma clearResultSet_eq:
  "clearResultSet rfree S w =
     (S\<lparr>resultSet := None\<rparr>,
      w\<lparr>backend := (case resultSet S of None \<Rightarrow> backend w | Some R \<Rightarrow> rfree R (backend w)),
        released := released w @ held (Some S)\<rparr>)"
  by (cases "resultSet S") (simp_all add: clearResultSet_def ResultSet_free_def held_def)

lemmas method_defs =
  setter_defs PreparedStatement_execute_def PreparedStatement_executeQuery_def
  PreparedStatement_rowsChanged_def PreparedStatement_getParameterCount_def
  PreparedStatement_free_def

lemma produced_void [simp]: "produced [map_sum id (\<lambda>_. V_void) x] = []"
  by (cases x) simp_all

lemma produced_llong [simp]: "produced [map_sum id V_llong x] = []"
  by (cases x) simp_all

lemma produced_int [simp]: "produced [map_sum id V_int x] = []"
  by (cases x) simp_all

lemma produced_append: "produced (xs @ ys) = produced xs @ produced ys"
  by (induction xs rule: produced.induct) simp_all

lemma invoke_held:
  assumes "invoke rfree c P w = (res, P', w')"
  shows "released w' @ held P' = released w @ held P @ produced [res]"
proof (cases P)
  case None
  with assms show ?thesis
    by (cases c) (auto simp: returning_def held_def method_defs)
next
  case (Some S)
  with assms show ?thesis
    by (cases c)
       (auto simp: returning_def held_def clearResultSet_eq method_defs
          split: prod.splits sum.splits option.splits)
qed

lemma run_held:
  "run rfree cs P w = (ress, P', w') \<Longrightarrow>
     released w' @ held P' = released w @ held P @ produced ress"
proof (induction cs arbitrary: P w ress)
  case Nil
  then show ?case by simp
next
  case (Cons c cs)
  obtain res P1 w1 where i: "invoke rfree c P w = (res, P1, w1)"
    by (metis prod_cases3)
  obtain rs P2 w2 where r: "run rfree cs P1 w1 = (rs, P2, w2)"
    by (metis prod_cases3)
  from Cons.prems i r have e: "ress = res # rs" "P' = P2" "w' = w2" by simp_all
  have p: "produced ress = produced [res] @ produced rs"
    using e produced_append [of "[res]" rs] by simp
  from r e have "released w' @ held P' = (released w1 @ held P1) @ produced rs"
    using Cons.IH [of P1 w1 rs] by simp
  also have "\<dots> = (released w @ held P @ produced [res]) @ produced rs"
    using invoke_held [OF i] by simp
  also have "\<dots> = released w @ held P @ produced ress"
    using p by simp
  finally show ?case .
qed

lemma length_held: "length (held P) \<le> 1"
  by (simp add: held_def split: option.splits)

subsection \<open>Executing a query\<close>

text \<open>
  Claim C1. For every statement, \<open>executeQuery\<close> first discards the result set the
  statement holds, if any, and then calls the delegate, which so runs on the backend as
  the release left it. Whatever the delegate answers, the prior result set has been
  released and the backend is as the delegate left it. When the delegate returns NULL,
  \<open>executeQuery\<close> raises the exception \<^verbatim>\<open>SQLException\<close> of
  \<^verbatim>\<open>PreparedStatement_executeQuery\<close>. When it returns a result set, that result set is
  returned and becomes the one the statement holds, whatever its rows: also when it has
  none, and then its \<open>next\<close> answers false on the first call.
\<close>

theorem executeQuery_result_or_error:
  fixes S :: "('d, ResultSet_S, 'b) PreparedStatement_S"
  assumes "executeQuery (op S) (D S)
             (case resultSet S of None \<Rightarrow> backend w | Some R \<Rightarrow> rfree R (backend w)) = (res, b)"
  shows "released (snd (snd (PreparedStatement_executeQuery rfree (Some S) w))) =
           released w @ held (Some S) \<and>
         backend (snd (snd (PreparedStatement_executeQuery rfree (Some S) w))) = b \<and>
         (res = Inr None \<longrightarrow>
            fst (PreparedStatement_executeQuery rfree (Some S) w) =
              Inl (SQLException ''PreparedStatement_executeQuery'')) \<and>
         (\<forall>R. res = Inr (Some R) \<longrightarrow>
            fst (PreparedStatement_executeQuery rfree (Some S) w) = Inr R \<and>
            fst (snd (PreparedStatement_executeQuery rfree (Some S) w)) =
              Some (S\<lparr>resultSet := Some R\<rparr>) \<and>
            (pending R = [] \<longrightarrow> fst (ResultSet_next R) = Inr False))"
  using assms
  by (cases res)
     (auto simp: PreparedStatement_executeQuery_def clearResultSet_eq ResultSet_next_def
        split: option.splits)

theorem executeQuery_result_or_error_witness:
  "PreparedStatement_executeQuery scripted_rfree (Some (scripted_statement (Some rs_scenario)))
       (scripted_world [Some rs_empty]) =
     (Inr rs_empty, Some (scripted_statement (Some rs_empty)),
      \<lparr>backend = \<lparr>journal = [ResultSet_released, Delegate Call_executeQuery], script = []\<rparr>,
       released = [rs_scenario]\<rparr>) \<and>
   fst (ResultSet_next rs_empty) = Inr False \<and>
   fst (PreparedStatement_executeQuery scripted_rfree (Some (scripted_statement (Some rs_scenario)))
       (scripted_world [None])) = Inl (SQLException ''PreparedStatement_executeQuery'')"
  using
    executeQuery_result_or_error [of "scripted_statement (Some rs_scenario)" "scripted_world [Some rs_empty]"
          scripted_rfree "Inr (Some rs_empty)"
          "\<lparr>journal = [ResultSet_released, Delegate Call_executeQuery], script = []\<rparr>"]
    executeQuery_result_or_error [of "scripted_statement (Some rs_scenario)" "scripted_world [None]"
          scripted_rfree "Inr None"
          "\<lparr>journal = [ResultSet_released, Delegate Call_executeQuery], script = []\<rparr>"]
  by (simp add: scripted_defs PreparedStatement_executeQuery_def clearResultSet_eq held_def
        ResultSet_next_def rs_empty_def)


subsection \<open>One result set at a time\<close>

text \<open>
  Claim C2. Take any sequence of calls on a statement pointer, from any state. After it
  the statement holds at most one result set, and the result sets it held at the start
  or handed to the client since are, in the order they were produced, the ones released
  followed by the one still held: none but the last can be unreleased. Moreover
  \<open>execute\<close> and \<open>executeQuery\<close> each release the result set held before they go on:
  the delegate operation runs on the backend as the release left it, with the prior
  result set already among the released, and what it leaves is the backend afterwards.
  \<open>execute\<close> leaves the statement without a result set; \<open>executeQuery\<close> leaves it with
  the one the delegate returned, if it returned one, and no other. A new statement holds
  none.
\<close>

theorem statement_holds_one_ResultSet:
  assumes "run rfree cs P w = (ress, P', w')"
  shows "length (held P') \<le> 1 \<and>
         released w' @ held P' = released w @ held P @ produced ress \<and>
         (\<forall>S. P = Some S \<longrightarrow>
            PreparedStatement_execute rfree P w =
              (fst (execute (op S) (D S)
                 (case resultSet S of None \<Rightarrow> backend w | Some R \<Rightarrow> rfree R (backend w))),
               Some (S\<lparr>resultSet := None\<rparr>),
               w\<lparr>backend :=
                   snd (execute (op S) (D S)
                     (case resultSet S of None \<Rightarrow> backend w | Some R \<Rightarrow> rfree R (backend w))),
                 released := released w @ held P\<rparr>) \<and>
            fst (snd (PreparedStatement_execute rfree P w)) = Some (S\<lparr>resultSet := None\<rparr>) \<and>
            released (snd (snd (PreparedStatement_execute rfree P w))) = released w @ held P \<and>
            snd (snd (PreparedStatement_executeQuery rfree P w)) =
              w\<lparr>backend :=
                  snd (executeQuery (op S) (D S)
                    (case resultSet S of None \<Rightarrow> backend w | Some R \<Rightarrow> rfree R (backend w))),
                released := released w @ held P\<rparr> \<and>
            held (fst (snd (PreparedStatement_executeQuery rfree P w))) =
              (case fst (executeQuery (op S) (D S)
                 (case resultSet S of None \<Rightarrow> backend w | Some R \<Rightarrow> rfree R (backend w))) of
                 Inl e \<Rightarrow> []
               | Inr None \<Rightarrow> []
               | Inr (Some R) \<Rightarrow> [R]) \<and>
            released (snd (snd (PreparedStatement_executeQuery rfree P w))) = released w @ held P \<and>
            length (held (fst (snd (PreparedStatement_executeQuery rfree P w)))) \<le> 1) \<and>
         (\<forall>S. PreparedStatement_new D0 op0 = Inr S \<longrightarrow> held (Some S) = [])"
proof (intro conjI allI impI)
  show "length (held P') \<le> 1"
    by (rule length_held)
  show "released w' @ held P' = released w @ held P @ produced ress"
    by (rule run_held [OF assms])
next
  fix S
  assume "P = Some S"
  then show "PreparedStatement_execute rfree P w =
      (fst (execute (op S) (D S)
         (case resultSet S of None \<Rightarrow> backend w | Some R \<Rightarrow> rfree R (backend w))),
       Some (S\<lparr>resultSet := None\<rparr>),
       w\<lparr>backend :=
           snd (execute (op S) (D S)
             (case resultSet S of None \<Rightarrow> backend w | Some R \<Rightarrow> rfree R (backend w))),
         released := released w @ held P\<rparr>)"
    by (simp add: PreparedStatement_execute_def clearResultSet_eq split: prod.splits)
next
  fix S
  assume "P = Some S"
  then show "fst (snd (PreparedStatement_execute rfree P w)) = Some (S\<lparr>resultSet := None\<rparr>)"
    by (simp add: PreparedStatement_execute_def clearResultSet_eq split: prod.splits)
next
  fix S
  assume "P = Some S"
  then show "released (snd (snd (PreparedStatement_execute rfree P w))) = released w @ held P"
    by (simp add: PreparedStatement_execute_def clearResultSet_eq split: prod.splits)
next
  fix S
  assume "P = Some S"
  then show "snd (snd (PreparedStatement_executeQuery rfree P w)) =
      w\<lparr>backend :=
          snd (executeQuery (op S) (D S)
            (case resultSet S of None \<Rightarrow> backend w | Some R \<Rightarrow> rfree R (backend w))),
        released := released w @ held P\<rparr>"
    by (simp add: PreparedStatement_executeQuery_def clearResultSet_eq
          split: prod.splits sum.splits option.splits)
next
  fix S
  assume "P = Some S"
  then show "held (fst (snd (PreparedStatement_executeQuery rfree P w))) =
      (case fst (executeQuery (op S) (D S)
         (case resultSet S of None \<Rightarrow> backend w | Some R \<Rightarrow> rfree R (backend w))) of
         Inl e \<Rightarrow> []
       | Inr None \<Rightarrow> []
       | Inr (Some R) \<Rightarrow> [R])"
    by (simp add: PreparedStatement_executeQuery_def clearResultSet_eq held_def
          split: prod.splits sum.splits option.splits)
next
  fix S
  assume "P = Some S"
  then show "released (snd (snd (PreparedStatement_executeQuery rfree P w))) = released w @ held P"
    by (simp add: PreparedStatement_executeQuery_def clearResultSet_eq
          split: prod.splits sum.splits option.splits)
next
  fix S
  show "length (held (fst (snd (PreparedStatement_executeQuery rfree P w)))) \<le> 1"
    by (rule length_held)
next
  fix S
  assume "PreparedStatement_new D0 op0 = Inr S"
  then show "held (Some S) = []"
    by (auto simp: PreparedStatement_new_def held_def split: option.splits)
qed

theorem statement_holds_one_ResultSet_witness:
  "run scripted_rfree [Call_executeQuery, Call_setString 1 (Some ''ok''), Call_executeQuery,
       Call_executeQuery, Call_execute]
     (Some (scripted_statement None)) (scripted_world [Some rs_scenario, None, Some rs_empty]) =
     ([Inr (V_ResultSet rs_scenario), Inr V_void,
       Inl (SQLException ''PreparedStatement_executeQuery''), Inr (V_ResultSet rs_empty),
       Inr V_void],
      Some (scripted_statement None),
      \<lparr>backend =
         \<lparr>journal =
            [Delegate Call_executeQuery, Delegate (Call_setString 1 (Some ''ok'')),
             ResultSet_released, Delegate Call_executeQuery, Delegate Call_executeQuery,
             ResultSet_released, Delegate Call_execute],
          script = []\<rparr>,
       released = [rs_scenario, rs_empty]\<rparr>) \<and>
   released
     \<lparr>backend =
         \<lparr>journal =
            [Delegate Call_executeQuery, Delegate (Call_setString 1 (Some ''ok'')),
             ResultSet_released, Delegate Call_executeQuery, Delegate Call_executeQuery,
             ResultSet_released, Delegate Call_execute],
          script = []\<rparr>,
       released = [rs_scenario, rs_empty]\<rparr> @ held (Some (scripted_statement None)) =
     [rs_scenario, rs_empty] \<and>
   PreparedStatement_execute scripted_rfree (Some (scripted_statement (Some rs_scenario)))
       (scripted_world []) =
     (Inr (), Some (scripted_statement None),
      \<lparr>backend = \<lparr>journal = [ResultSet_released, Delegate Call_execute], script = []\<rparr>,
       released = [rs_scenario]\<rparr>)"
proof -
  let ?S = "scripted_statement (Some rs_scenario)"
  let ?w = "scripted_world []"
  let ?b = "case resultSet ?S of None \<Rightarrow> backend ?w | Some R \<Rightarrow> scripted_rfree R (backend ?w)"
  have "run scripted_rfree [] (Some ?S) ?w = ([], Some ?S, ?w)"
    by simp
  from statement_holds_one_ResultSet
    [OF this, where ?D0.0 = "None :: nat option"
       and ?op0.0 = "None :: (nat, ResultSet_S, scripted) Pop_S option"]
  have "PreparedStatement_execute scripted_rfree (Some ?S) ?w =
      (fst (execute (op ?S) (D ?S) ?b), Some (?S\<lparr>resultSet := None\<rparr>),
       ?w\<lparr>backend := snd (execute (op ?S) (D ?S) ?b),
          released := released ?w @ held (Some ?S)\<rparr>)"
    by blast
  then have e: "PreparedStatement_execute scripted_rfree (Some ?S) ?w =
     (Inr (), Some (scripted_statement None),
      \<lparr>backend = \<lparr>journal = [ResultSet_released, Delegate Call_execute], script = []\<rparr>,
       released = [rs_scenario]\<rparr>)"
    by (simp add: scripted_defs held_def)
  have r: "run scripted_rfree [Call_executeQuery, Call_setString 1 (Some ''ok''),
       Call_executeQuery, Call_executeQuery, Call_execute]
     (Some (scripted_statement None)) (scripted_world [Some rs_scenario, None, Some rs_empty]) =
     ([Inr (V_ResultSet rs_scenario), Inr V_void,
       Inl (SQLException ''PreparedStatement_executeQuery''), Inr (V_ResultSet rs_empty),
       Inr V_void],
      Some (scripted_statement None),
      \<lparr>backend =
         \<lparr>journal =
            [Delegate Call_executeQuery, Delegate (Call_setString 1 (Some ''ok'')),
             ResultSet_released, Delegate Call_executeQuery, Delegate Call_executeQuery,
             ResultSet_released, Delegate Call_execute],
          script = []\<rparr>,
       released = [rs_scenario, rs_empty]\<rparr>)"
    by (simp add: scripted_defs returning_def method_defs clearResultSet_eq held_def)
  from statement_holds_one_ResultSet [OF r] r e show ?thesis
    by (simp add: scripted_world_def held_def scripted_statement_def)
qed

subsection \<open>Failing queries\<close>

text \<open>
  Claim C10. When the delegate of \<open>executeQuery\<close> returns no result handle, it had run on
  the backend as the release of the prior result set left it: the exception is raised
  after the release. The statement is not as it was: it holds no result set, and the
  one it held is among the released.
\<close>

theorem executeQuery_error_after_release:
  assumes "executeQuery (op S) (D S)
             (case resultSet S of None \<Rightarrow> backend w | Some R \<Rightarrow> rfree R (backend w)) =
           (Inr None, b)"
  shows "PreparedStatement_executeQuery rfree (Some S) w =
           (Inl (SQLException ''PreparedStatement_executeQuery''),
            Some (S\<lparr>resultSet := None\<rparr>),
            w\<lparr>backend := b, released := released w @ held (Some S)\<rparr>) \<and>
         held (Some (S\<lparr>resultSet := None\<rparr>)) = []"
  using assms
  by (simp add: PreparedStatement_executeQuery_def clearResultSet_eq held_def)

theorem executeQuery_error_after_release_witness:
  "PreparedStatement_executeQuery scripted_rfree (Some (scripted_statement (Some rs_scenario)))
       (scripted_world [None]) =
     (Inl (SQLException ''PreparedStatement_executeQuery''), Some (scripted_statement None),
      \<lparr>backend = \<lparr>journal = [ResultSet_released, Delegate Call_executeQuery], script = []\<rparr>,
       released = [rs_scenario]\<rparr>)"
proof -
  have "executeQuery (op (scripted_statement (Some rs_scenario)))
          (D (scripted_statement (Some rs_scenario)))
          (case resultSet (scripted_statement (Some rs_scenario)) of
             None \<Rightarrow> backend (scripted_world [None])
           | Some R \<Rightarrow> scripted_rfree R (backend (scripted_world [None]))) =
        (Inr None, \<lparr>journal = [ResultSet_released, Delegate Call_executeQuery], script = []\<rparr>)"
    by (simp add: scripted_defs)
  from executeQuery_error_after_release
      [where S = "scripted_statement (Some rs_scenario)" and w = "scripted_world [None]"
         and rfree = scripted_rfree, OF this]
  show ?thesis
    by (simp add: scripted_defs held_def)
qed


subsection \<open>Destroying a statement\<close>

text \<open>
  Claim C8. \<open>PreparedStatement_free\<close> releases in order: first the result set the
  statement holds, if it holds one, then the delegate, whose \<open>free\<close> operation runs on
  the backend as that release left it.
\<close>

theorem free_releases_ResultSet_then_delegate:
  "PreparedStatement_free rfree (Some (Some S)) w =
     (Inr (), None,
      w\<lparr>backend :=
          free (op S) (D S)
            (case resultSet S of None \<Rightarrow> backend w | Some R \<Rightarrow> rfree R (backend w)),
        released := released w @ held (Some S)\<rparr>)"
  by (simp add: PreparedStatement_free_def clearResultSet_eq)

theorem free_releases_ResultSet_then_delegate_witness:
  "PreparedStatement_free scripted_rfree (Some (Some (scripted_statement (Some rs_scenario))))
       (scripted_world []) =
     (Inr (), None,
      \<lparr>backend = \<lparr>journal = [ResultSet_released, Delegate Call_free], script = []\<rparr>,
       released = [rs_scenario]\<rparr>)"
  using free_releases_ResultSet_then_delegate [of scripted_rfree "scripted_statement (Some rs_scenario)" "scripted_world []"]
  by (simp add: scripted_defs held_def)

subsection \<open>Binding parameters\<close>

text \<open>
  Claim C9. Each of the twelve setters calls the operation of the same name of the
  delegate with the statement's delegate handle, the parameter index and the value as
  they were given. What it returns or raises is what the delegate returned or raised;
  the backend is as the delegate left it; the statement and the released result sets
  are unchanged.
\<close>

theorem setters_forward_to_delegate:
  "PreparedStatement_setString (Some S) i s w =
     (fst (setString (op S) (D S) i s (backend w)), Some S,
      w\<lparr>backend := snd (setString (op S) (D S) i s (backend w))\<rparr>) \<and>
   PreparedStatement_setInt8 (Some S) i x8 w =
     (fst (setInt8 (op S) (D S) i x8 (backend w)), Some S,
      w\<lparr>backend := snd (setInt8 (op S) (D S) i x8 (backend w))\<rparr>) \<and>
   PreparedStatement_setUInt8 (Some S) i x8 w =
     (fst (setUInt8 (op S) (D S) i x8 (backend w)), Some S,
      w\<lparr>backend := snd (setUInt8 (op S) (D S) i x8 (backend w))\<rparr>) \<and>
   PreparedStatement_setInt16 (Some S) i x16 w =
     (fst (setInt16 (op S) (D S) i x16 (backend w)), Some S,
      w\<lparr>backend := snd (setInt16 (op S) (D S) i x16 (backend w))\<rparr>) \<and>
   PreparedStatement_setUInt16 (Some S) i x16 w =
     (fst (setUInt16 (op S) (D S) i x16 (backend w)), Some S,
      w\<lparr>backend := snd (setUInt16 (op S) (D S) i x16 (backend w))\<rparr>) \<and>
   PreparedStatement_setInt32 (Some S) i x32 w =
     (fst (setInt32 (op S) (D S) i x32 (backend w)), Some S,
      w\<lparr>backend := snd (setInt32 (op S) (D S) i x32 (backend w))\<rparr>) \<and>
   PreparedStatement_setUInt32 (Some S) i x32 w =
     (fst (setUInt32 (op S) (D S) i x32 (backend w)), Some S,
      w\<lparr>backend := snd (setUInt32 (op S) (D S) i x32 (backend w))\<rparr>) \<and>
   PreparedStatement_setInt64 (Some S) i x64 w =
     (fst (setInt64 (op S) (D S) i x64 (backend w)), Some S,
      w\<lparr>backend := snd (setInt64 (op S) (D S) i x64 (backend w))\<rparr>) \<and>
   PreparedStatement_setUInt64 (Some S) i x64 w =
     (fst (setUInt64 (op S) (D S) i x64 (backend w)), Some S,
      w\<lparr>backend := snd (setUInt64 (op S) (D S) i x64 (backend w))\<rparr>) \<and>
   PreparedStatement_setDouble (Some S) i d w =
     (fst (setDouble (op S) (D S) i d (backend w)), Some S,
      w\<lparr>backend := snd (setDouble (op S) (D S) i d (backend w))\<rparr>) \<and>
   PreparedStatement_setBlob (Some S) i blob n w =
     (fst (setBlob (op S) (D S) i blob n (backend w)), Some S,
      w\<lparr>backend := snd (setBlob (op S) (D S) i blob n (backend w))\<rparr>) \<and>
   PreparedStatement_setTimestamp (Some S) i t w =
     (fst (setTimestamp (op S) (D S) i t (backend w)), Some S,
      w\<lparr>backend := snd (setTimestamp (op S) (D S) i t (backend w))\<rparr>)"
  by (simp add: setter_defs split: prod.splits)

theorem setters_forward_to_delegate_witness:
  "PreparedStatement_setInt32 (Some (scripted_statement None)) 1 7 (scripted_world []) =
     (Inr (), Some (scripted_statement None),
      \<lparr>backend = \<lparr>journal = [Delegate (Call_setInt32 1 7)], script = []\<rparr>, released = []\<rparr>) \<and>
   PreparedStatement_setString (Some (scripted_statement None)) 3 (Some ''ok'') (scripted_world []) =
     (Inl (SQLException ''parameter index out of range''), Some (scripted_statement None),
      scripted_world [])"
  using setters_forward_to_delegate [of "scripted_statement None" _ _ "scripted_world []"]
  by (simp add: scripted_defs)

section \<open>Properties of ResultSet.h\<close>

subsection \<open>Auxiliary facts\<close>

lemmas indexed_getter_defs =
  ResultSet_getString_def ResultSet_getInt_def ResultSet_getLLong_def ResultSet_getDouble_def
  ResultSet_getBlob_def ResultSet_getTimestamp_def ResultSet_getDate_def ResultSet_getTime_def
  ResultSet_getDateTime_def ResultSet_getColumnSize_def ResultSet_isnull_def

lemmas named_getter_defs =
  ResultSet_getStringByName_def ResultSet_getIntByName_def ResultSet_getLLongByName_def
  ResultSet_getDoubleByName_def ResultSet_getBlobByName_def ResultSet_getTimestampByName_def
  ResultSet_getDateByName_def ResultSet_getTimeByName_def ResultSet_getDateTimeByName_def

lemmas sample_defs = rs_empty_def rs_scenario_def rs_aba_def rs_failing_def no_conv_def

lemma next_times_exhausted:
  "pending R = [] \<Longrightarrow> next_times n R = (replicate n (Inr False), R)"
  by (induction n) (simp_all add: ResultSet_next_def)

lemma findColumn_None:
  "findColumn ns columnName i = None \<longleftrightarrow> columnName \<notin> set ns"
  by (induction ns arbitrary: i) auto

lemma findColumn_Some:
  "findColumn ns columnName i = Some j \<Longrightarrow>
     i \<le> j \<and> j < i + int (length ns) \<and> ns ! nat (j - i) = columnName \<and>
     (\<forall>k. i \<le> k \<and> k < j \<longrightarrow> ns ! nat (k - i) \<noteq> columnName)"
proof (induction ns arbitrary: i)
  case Nil
  then show ?case by simp
next
  case (Cons n ns)
  show ?case
  proof (cases "n = columnName")
    case True
    with Cons.prems show ?thesis by simp
  next
    case False
    with Cons.prems have f: "findColumn ns columnName (i + 1) = Some j" by simp
    note ih = Cons.IH [OF f]
    from ih have "i + 1 \<le> j" by simp
    then have "nat (j - i) = Suc (nat (j - (i + 1)))" by arith
    with ih have "(n # ns) ! nat (j - i) = columnName" by simp
    moreover have "(n # ns) ! nat (k - i) \<noteq> columnName" if "i \<le> k" "k < j" for k
    proof (cases "k = i")
      case True
      with False show ?thesis by simp
    next
      case neq: False
      with that ih have "ns ! nat (k - (i + 1)) \<noteq> columnName" by simp
      moreover from neq that have "nat (k - i) = Suc (nat (k - (i + 1)))" by simp
      ultimately show ?thesis by simp
    qed
    ultimately show ?thesis using ih by simp
  qed
qed


lemma getIndex_Inr:
  assumes "getIndex R columnName = Inr i"
  shows "1 \<le> i" and "i \<le> ResultSet_getColumnCount R"
    and "ResultSet_getColumnName R i = Some columnName"
    and "1 \<le> j \<Longrightarrow> j < i \<Longrightarrow> ResultSet_getColumnName R j \<noteq> Some columnName"
proof -
  from assms have f: "findColumn (columnNames R) columnName 1 = Some i"
    by (simp add: getIndex_def split: option.splits)
  note p = findColumn_Some [OF f]
  from p show "1 \<le> i" by simp
  from p show "i \<le> ResultSet_getColumnCount R"
    by (simp add: ResultSet_getColumnCount_def)
  from p show "ResultSet_getColumnName R i = Some columnName"
    by (simp add: ResultSet_getColumnName_def checkIndex_def ResultSet_getColumnCount_def)
  assume "1 \<le> j" "j < i"
  with p show "ResultSet_getColumnName R j \<noteq> Some columnName"
    by (simp add: ResultSet_getColumnName_def checkIndex_def ResultSet_getColumnCount_def)
qed

subsection \<open>Column indices\<close>

text \<open>
  Claim C4. For a column index outside \<open>[1, columnCount]\<close>, every indexed getter
  raises \<open>OutOfRange\<close>: \<open>getString\<close>, \<open>getInt\<close>, \<open>getLLong\<close>, \<open>getDouble\<close>,
  \<open>getBlob\<close>, \<open>getTimestamp\<close>, \<open>getDate\<close>, \<open>getTime\<close>, \<open>getDateTime\<close>,
  \<open>getColumnSize\<close> and \<open>isnull\<close>. An index that passes the check is a position
  inside the list of columns: nothing is read out of bounds.
\<close>

theorem indexed_getters_OutOfRange:
  "(columnIndex < 1 \<or> ResultSet_getColumnCount R < columnIndex \<longrightarrow>
      ResultSet_getString R columnIndex = Inl OutOfRange \<and>
      ResultSet_getInt c R columnIndex = Inl OutOfRange \<and>
      ResultSet_getLLong c R columnIndex = Inl OutOfRange \<and>
      ResultSet_getDouble c R columnIndex = Inl OutOfRange \<and>
      ResultSet_getBlob R columnIndex = Inl OutOfRange \<and>
      ResultSet_getTimestamp c R columnIndex = Inl OutOfRange \<and>
      ResultSet_getDate c R columnIndex = Inl OutOfRange \<and>
      ResultSet_getTime c R columnIndex = Inl OutOfRange \<and>
      ResultSet_getDateTime c R columnIndex = Inl OutOfRange \<and>
      ResultSet_getColumnSize R columnIndex = Inl OutOfRange \<and>
      ResultSet_isnull R columnIndex = Inl OutOfRange) \<and>
   (\<forall>k. checkIndex R columnIndex = Inr k \<longrightarrow>
      k < length (columnNames R) \<and> int k = columnIndex - 1)"
  by (auto simp: indexed_getter_defs checkIndex_def ResultSet_getColumnCount_def)

theorem indexed_getters_OutOfRange_witness:
  "ResultSet_getString rs_aba 0 = Inl OutOfRange \<and>
   ResultSet_getInt no_conv rs_aba 4 = Inl OutOfRange \<and>
   ResultSet_isnull rs_aba (- 1) = Inl OutOfRange \<and>
   ResultSet_getColumnCount rs_aba = 3 \<and>
   checkIndex rs_aba 3 = Inr 2"
  using indexed_getters_OutOfRange [of 0 rs_aba no_conv] indexed_getters_OutOfRange [of 4 rs_aba no_conv] indexed_getters_OutOfRange [of "- 1" rs_aba no_conv]
    indexed_getters_OutOfRange [of 3 rs_aba no_conv]
  by (simp add: ResultSet_getColumnCount_def checkIndex_def rs_aba_def)

subsection \<open>SQL NULL\<close>

text \<open>
  Claim C5. When \<open>isnull\<close> answers true for a column of the current row, \<open>getString\<close>
  returns NULL, \<open>getInt\<close>, \<open>getLLong\<close> and \<open>getDouble\<close> return 0, and \<open>getBlob\<close>
  returns NULL with size 0; none of them raises.
\<close>

theorem getters_of_SQL_NULL:
  assumes "ResultSet_isnull R columnIndex = Inr True"
  shows "ResultSet_getString R columnIndex = Inr None \<and>
         ResultSet_getInt c R columnIndex = Inr 0 \<and>
         ResultSet_getLLong c R columnIndex = Inr 0 \<and>
         ResultSet_getDouble c R columnIndex = Inr 0 \<and>
         ResultSet_getBlob R columnIndex = Inr (None, 0)"
  using assms
  by (auto simp: indexed_getter_defs convert_def split: sum.splits)

theorem getters_of_SQL_NULL_witness:
  "ResultSet_isnull rs_aba 2 = Inr True \<and>
   ResultSet_getString rs_aba 2 = Inr None \<and>
   ResultSet_getInt no_conv rs_aba 2 = Inr 0 \<and>
   ResultSet_getLLong no_conv rs_aba 2 = Inr 0 \<and>
   ResultSet_getDouble no_conv rs_aba 2 = Inr 0 \<and>
   ResultSet_getBlob rs_aba 2 = Inr (None, 0)"
proof -
  have n: "ResultSet_isnull rs_aba 2 = Inr True"
    by (simp add: ResultSet_isnull_def checkIndex_def ResultSet_getColumnCount_def cell_def
          rs_aba_def)
  from getters_of_SQL_NULL [OF n, of no_conv] n show ?thesis by simp
qed

subsection \<open>The end of the rows\<close>

text \<open>
  Claim C6. \<open>next\<close> returns false exactly when no row is left, so on the first call
  for an empty result set; once it has returned false, every later call returns false
  again, however many; and it raises only the database access error, and only when the
  backend fails.
\<close>

theorem next_after_exhaustion:
  "(fst (ResultSet_next R) = Inr False \<longleftrightarrow> pending R = []) \<and>
   (fst (ResultSet_next R) = Inr False \<longrightarrow>
      (\<forall>n. next_times n (snd (ResultSet_next R)) =
             (replicate n (Inr False), snd (ResultSet_next R)))) \<and>
   (\<forall>e. fst (ResultSet_next R) = Inl e \<longrightarrow>
      e = DatabaseAccessError \<and> (\<exists>rest. pending R = Failure # rest))"
proof (intro conjI allI impI)
  show "fst (ResultSet_next R) = Inr False \<longleftrightarrow> pending R = []"
    by (simp add: ResultSet_next_def split: list.splits fetch.splits)
next
  fix n
  assume "fst (ResultSet_next R) = Inr False"
  then have "pending (snd (ResultSet_next R)) = []"
    by (simp add: ResultSet_next_def split: list.splits fetch.splits)
  then show "next_times n (snd (ResultSet_next R)) =
      (replicate n (Inr False), snd (ResultSet_next R))"
    by (rule next_times_exhausted)
next
  fix e
  assume "fst (ResultSet_next R) = Inl e"
  then show "e = DatabaseAccessError"
    by (simp add: ResultSet_next_def split: list.splits fetch.splits)
next
  fix e
  assume "fst (ResultSet_next R) = Inl e"
  then show "\<exists>rest. pending R = Failure # rest"
    by (simp add: ResultSet_next_def split: list.splits fetch.splits)
qed

theorem next_after_exhaustion_witness:
  "fst (ResultSet_next rs_empty) = Inr False \<and>
   fst (next_times 3 (snd (ResultSet_next rs_empty))) = [Inr False, Inr False, Inr False] \<and>
   fst (next_times 4 rs_scenario) = [Inr True, Inr False, Inr False, Inr False] \<and>
   fst (next_times 3 rs_failing) =
     [Inr True, Inl DatabaseAccessError, Inl DatabaseAccessError]"
proof -
  have a: "fst (ResultSet_next rs_empty) = Inr False"
    by (simp add: ResultSet_next_def rs_empty_def)
  from next_after_exhaustion [of rs_empty] a
  have "\<forall>n. next_times n (snd (ResultSet_next rs_empty)) =
          (replicate n (Inr False), snd (ResultSet_next rs_empty))"
    by blast
  then have "next_times 3 (snd (ResultSet_next rs_empty)) =
          (replicate 3 (Inr False), snd (ResultSet_next rs_empty))"
    by (rule spec)
  moreover have "replicate 3 (Inr False :: sql_error + bool) = [Inr False, Inr False, Inr False]"
    by (simp add: numeral_3_eq_3)
  ultimately have b:
    "fst (next_times 3 (snd (ResultSet_next rs_empty))) = [Inr False, Inr False, Inr False]"
    by (simp only: fst_conv)
  have c: "fst (next_times 4 rs_scenario) = [Inr True, Inr False, Inr False, Inr False]"
    by (simp add: numeral_eq_Suc ResultSet_next_def rs_scenario_def)
  have d: "fst (next_times 3 rs_failing) =
      [Inr True, Inl DatabaseAccessError, Inl DatabaseAccessError]"
    by (simp add: numeral_eq_Suc ResultSet_next_def rs_failing_def)
  from a b c d show ?thesis by (intro conjI)
qed

subsection \<open>Columns by name\<close>

text \<open>
  Claim C7. A getter by name compares the column names exactly, so by case too. When no
  column has the name, it raises \<open>ColumnNotFound\<close>, which is not \<open>OutOfRange\<close>. When
  some column has it, the getter returns what the getter by index returns at the first
  such column: the index found is in range, the column there has the name, and no
  column before it has.
\<close>

theorem getters_by_name_first_match:
  "(columnName \<notin> set (columnNames R) \<longrightarrow>
      ResultSet_getStringByName R columnName = Inl ColumnNotFound \<and>
      ResultSet_getIntByName c R columnName = Inl ColumnNotFound \<and>
      ResultSet_getLLongByName c R columnName = Inl ColumnNotFound \<and>
      ResultSet_getDoubleByName c R columnName = Inl ColumnNotFound \<and>
      ResultSet_getBlobByName R columnName = Inl ColumnNotFound \<and>
      ResultSet_getTimestampByName c R columnName = Inl ColumnNotFound \<and>
      ResultSet_getDateByName c R columnName = Inl ColumnNotFound \<and>
      ResultSet_getTimeByName c R columnName = Inl ColumnNotFound \<and>
      ResultSet_getDateTimeByName c R columnName = Inl ColumnNotFound) \<and>
   (columnName \<in> set (columnNames R) \<longrightarrow> (\<exists>i. getIndex R columnName = Inr i)) \<and>
   (\<forall>i. getIndex R columnName = Inr i \<longrightarrow>
      1 \<le> i \<and> i \<le> ResultSet_getColumnCount R \<and>
      ResultSet_getColumnName R i = Some columnName \<and>
      (\<forall>j. 1 \<le> j \<and> j < i \<longrightarrow> ResultSet_getColumnName R j \<noteq> Some columnName) \<and>
      ResultSet_getStringByName R columnName = ResultSet_getString R i \<and>
      ResultSet_getIntByName c R columnName = ResultSet_getInt c R i \<and>
      ResultSet_getLLongByName c R columnName = ResultSet_getLLong c R i \<and>
      ResultSet_getDoubleByName c R columnName = ResultSet_getDouble c R i \<and>
      ResultSet_getBlobByName R columnName = ResultSet_getBlob R i \<and>
      ResultSet_getTimestampByName c R columnName = ResultSet_getTimestamp c R i \<and>
      ResultSet_getDateByName c R columnName = ResultSet_getDate c R i \<and>
      ResultSet_getTimeByName c R columnName = ResultSet_getTime c R i \<and>
      ResultSet_getDateTimeByName c R columnName = ResultSet_getDateTime c R i) \<and>
   ColumnNotFound \<noteq> OutOfRange"
proof (intro conjI)
  show "columnName \<notin> set (columnNames R) \<longrightarrow>
      ResultSet_getStringByName R columnName = Inl ColumnNotFound \<and>
      ResultSet_getIntByName c R columnName = Inl ColumnNotFound \<and>
      ResultSet_getLLongByName c R columnName = Inl ColumnNotFound \<and>
      ResultSet_getDoubleByName c R columnName = Inl ColumnNotFound \<and>
      ResultSet_getBlobByName R columnName = Inl ColumnNotFound \<and>
      ResultSet_getTimestampByName c R columnName = Inl ColumnNotFound \<and>
      ResultSet_getDateByName c R columnName = Inl ColumnNotFound \<and>
      ResultSet_getTimeByName c R columnName = Inl ColumnNotFound \<and>
      ResultSet_getDateTimeByName c R columnName = Inl ColumnNotFound"
    by (simp add: named_getter_defs byName_def getIndex_def
          findColumn_None [THEN iffD2])
  show "columnName \<in> set (columnNames R) \<longrightarrow> (\<exists>i. getIndex R columnName = Inr i)"
    using findColumn_None [of "columnNames R" columnName 1]
    by (auto simp: getIndex_def split: option.splits)
  show "\<forall>i. getIndex R columnName = Inr i \<longrightarrow>
      1 \<le> i \<and> i \<le> ResultSet_getColumnCount R \<and>
      ResultSet_getColumnName R i = Some columnName \<and>
      (\<forall>j. 1 \<le> j \<and> j < i \<longrightarrow> ResultSet_getColumnName R j \<noteq> Some columnName) \<and>
      ResultSet_getStringByName R columnName = ResultSet_getString R i \<and>
      ResultSet_getIntByName c R columnName = ResultSet_getInt c R i \<and>
      ResultSet_getLLongByName c R columnName = ResultSet_getLLong c R i \<and>
      ResultSet_getDoubleByName c R columnName = ResultSet_getDouble c R i \<and>
      ResultSet_getBlobByName R columnName = ResultSet_getBlob R i \<and>
      ResultSet_getTimestampByName c R columnName = ResultSet_getTimestamp c R i \<and>
      ResultSet_getDateByName c R columnName = ResultSet_getDate c R i \<and>
      ResultSet_getTimeByName c R columnName = ResultSet_getTime c R i \<and>
      ResultSet_getDateTimeByName c R columnName = ResultSet_getDateTime c R i"
  proof (intro allI impI)
    fix i
    assume g: "getIndex R columnName = Inr i"
    have "\<forall>j. 1 \<le> j \<and> j < i \<longrightarrow> ResultSet_getColumnName R j \<noteq> Some columnName"
      using getIndex_Inr(4) [OF g] by blast
    with getIndex_Inr(1-3) [OF g] g
    show "1 \<le> i \<and> i \<le> ResultSet_getColumnCount R \<and>
      ResultSet_getColumnName R i = Some columnName \<and>
      (\<forall>j. 1 \<le> j \<and> j < i \<longrightarrow> ResultSet_getColumnName R j \<noteq> Some columnName) \<and>
      ResultSet_getStringByName R columnName = ResultSet_getString R i \<and>
      ResultSet_getIntByName c R columnName = ResultSet_getInt c R i \<and>
      ResultSet_getLLongByName c R columnName = ResultSet_getLLong c R i \<and>
      ResultSet_getDoubleByName c R columnName = ResultSet_getDouble c R i \<and>
      ResultSet_getBlobByName R columnName = ResultSet_getBlob R i \<and>
      ResultSet_getTimestampByName c R columnName = ResultSet_getTimestamp c R i \<and>
      ResultSet_getDateByName c R columnName = ResultSet_getDate c R i \<and>
      ResultSet_getTimeByName c R columnName = ResultSet_getTime c R i \<and>
      ResultSet_getDateTimeByName c R columnName = ResultSet_getDateTime c R i"
      by (simp add: named_getter_defs byName_def)
  qed
  show "ColumnNotFound \<noteq> OutOfRange" by simp
qed

theorem getters_by_name_first_match_witness:
  "getIndex rs_aba ''a'' = Inr 1 \<and>
   ResultSet_getStringByName rs_aba ''a'' = Inr (Some ''first'') \<and>
   ResultSet_getString rs_aba 3 = Inr (Some ''third'') \<and>
   ResultSet_getStringByName rs_aba ''A'' = Inl ColumnNotFound \<and>
   ResultSet_getString rs_aba 4 = Inl OutOfRange"
proof -
  have g: "getIndex rs_aba ''a'' = Inr 1"
    by (simp add: getIndex_def rs_aba_def)
  have "ResultSet_getString rs_aba 1 = Inr (Some ''first'')"
    and "ResultSet_getString rs_aba 3 = Inr (Some ''third'')"
    and "ResultSet_getString rs_aba 4 = Inl OutOfRange"
    and "''A'' \<notin> set (columnNames rs_aba)"
    by (simp_all add: ResultSet_getString_def checkIndex_def ResultSet_getColumnCount_def
          cell_def rs_aba_def)
  with g getters_by_name_first_match [of "''a''" rs_aba no_conv] getters_by_name_first_match [of "''A''" rs_aba no_conv]
  show ?thesis by simp
qed


end
